theory Spec2Isabelle
  imports Complex_Main "HOL-Library.AList"
begin

section \<open>Data model of \<open>video_editor.py\<close>\<close>

text \<open>
  The editor keeps its timeline as plain data: media items in a dictionary keyed by id,
  and two lists of clips. Times are Python floats; they are modelled as real numbers, so
  the rounding of float arithmetic is not part of the model. A Python \<open>dict\<close> keeps
  insertion order and has unique keys; it is modelled as an association list, updated
  in place by \<^const>\<open>AList.update\<close> (an existing key keeps its position, a new key is
  appended), which is what \<open>d[k] = v\<close> does.
\<close>

record MediaItem =
  path :: string
  media_type :: string
  thumbnail :: string
  item_id :: string

record Clip =
  media_id :: string
  in_point :: real
  out_point :: real
  start_time :: real

record Project =
  media :: "(string \<times> MediaItem) list"
  video_clips :: "Clip list"
  audio_clips :: "Clip list"
  workspace_dir :: string
  export_dir :: string

subsection \<open>\<open>Project.add_media\<close> and \<open>Project.add_clip\<close>\<close>

definition add_media :: "MediaItem \<Rightarrow> Project \<Rightarrow> Project" where
  "add_media item p = p\<lparr>media := AList.update (item_id item) item (media p)\<rparr>"

text \<open>
  \<open>list.sort(key=...)\<close> is a stable ascending sort; \<^const>\<open>sort_key\<close> is the stable
  insertion sort of the HOL library. The track label is a string, compared with
  \<open>"video"\<close> only: every other label takes the \<open>else\<close> branch.
\<close>

definition add_clip :: "Clip \<Rightarrow> string \<Rightarrow> Project \<Rightarrow> Project" where
  "add_clip clip track p =
     (if track = ''video''
      then p\<lparr>video_clips := sort_key start_time (video_clips p @ [clip])\<rparr>
      else p\<lparr>audio_clips := sort_key start_time (audio_clips p @ [clip])\<rparr>)"

definition track_sorted :: "Clip list \<Rightarrow> bool" where
  "track_sorted cs = sorted (map start_time cs)"


section \<open>The process environment\<close>

text \<open>
  What lies outside the program is a parameter of the model: whether \<open>ffprobe\<close> is on the
  PATH, what a duration probe of a path yields (\<open>None\<close> when the run or the \<open>float(...)\<close>
  conversion raises), whether a directory can be created, the home directory, and the
  media engine. The engine is opaque: for a command line and the current files it says
  whether the command succeeded and what it left in its output file (\<open>None\<close>: nothing
  written), also when it failed. A command writes to no other file than its output, the
  last argument of the command line.

  The state of the running process is the duration cache, the trace of everything the
  program has done to the outside (subprocess runs and files it wrote itself), and the
  files on disk.
\<close>

datatype arg = Str string | Float real
  \<comment> \<open>\<open>Float r\<close> stands for the text \<open>str(r)\<close> of a Python float.\<close>

datatype event = Run "arg list" | WriteFile string string

datatype error = KeyError string | TypeError | OSError string | CalledProcessError "arg list"

record environment =
  ffprobe_on_path :: bool
  ffprobe_duration :: "string \<Rightarrow> real option"
  makedirs_ok :: "string \<Rightarrow> bool"
  home :: string
  run_ffmpeg :: "arg list \<Rightarrow> (string \<Rightarrow> string option) \<Rightarrow> bool \<times> string option"

record process =
  cache :: "string \<Rightarrow> real option"
  trace :: "event list"
  files :: "string \<Rightarrow> string option"

definition and_then :: "error + 'a \<Rightarrow> ('a \<Rightarrow> error + 'b) \<Rightarrow> error + 'b" where
  "and_then r f = (case r of Inl e \<Rightarrow> Inl e | Inr x \<Rightarrow> f x)"

definition makedirs :: "environment \<Rightarrow> string \<Rightarrow> error + unit" where
  "makedirs env d = (if makedirs_ok env d then Inr () else Inl (OSError d))"

definition expanduser :: "environment \<Rightarrow> string \<Rightarrow> string" where
  "expanduser env p = (case p of c # rest \<Rightarrow> (if c = CHR ''~'' then home env @ rest else p) | [] \<Rightarrow> p)"

definition path_join :: "string \<Rightarrow> string \<Rightarrow> string" where
  "path_join a b =
     (if b \<noteq> [] \<and> hd b = CHR ''/'' then b
      else if a = [] \<or> last a = CHR ''/'' then a @ b
      else a @ ''/'' @ b)"

subsection \<open>\<open>ffprobe_installed\<close> and \<open>get_media_duration\<close>\<close>

definition ffprobe_installed :: "environment \<Rightarrow> process \<Rightarrow> bool \<times> process" where
  "ffprobe_installed env s =
     (ffprobe_on_path env, s\<lparr>trace := trace s @ [Run [Str ''ffprobe'', Str ''-version'']]\<rparr>)"

definition ffprobe_cmd :: "string \<Rightarrow> arg list" where
  "ffprobe_cmd p =
     [Str ''ffprobe'', Str ''-v'', Str ''error'', Str ''-select_streams'', Str ''v:0'',
      Str ''-show_entries'', Str ''format=duration'', Str ''-of'',
      Str ''default=noprint_wrappers=1:nokey=1'', Str p]"

definition get_media_duration :: "environment \<Rightarrow> string \<Rightarrow> process \<Rightarrow> real \<times> process" where
  "get_media_duration env p s0 =
     (case ffprobe_installed env s0 of (installed, s1) \<Rightarrow>
        if \<not> installed then (10, s1)
        else (case cache s1 p of
                Some d \<Rightarrow> (d, s1)
              | None \<Rightarrow>
                  (let s2 = s1\<lparr>trace := trace s1 @ [Run (ffprobe_cmd p)]\<rparr>;
                       duration = (case ffprobe_duration env p of Some d \<Rightarrow> d | None \<Rightarrow> 10)
                   in (duration, s2\<lparr>cache := (cache s2)(p \<mapsto> duration)\<rparr>))))"

section \<open>The timeline widget\<close>

text \<open>
  \<open>TimelineWidget\<close> draws one rectangle item for each clip whose media is in the project
  and keeps the dictionary \<open>graphics_to_clip\<close> from items to clip objects. An item has
  its rectangle, given in the item's own coordinates and written in two places only
  (\<open>_draw_clip\<close> builds it at \<open>clip.start_time * pixels_per_second\<close>, and
  \<open>mouseReleaseEvent\<close> resets it to 0), and its position, which is what dragging a
  movable item changes and which no code of the widget reads.

  A clip object is shared between its track list and the dictionary. The model keeps,
  beside each track list, the list of the items of its clips in the same order (\<open>None\<close>
  for a clip that has no item), so that the item at a position belongs to the clip at
  that position; where the track is sorted, the items move with their clips.
\<close>

definition pixels_per_second :: real where
  "pixels_per_second = 100"

definition audio_y :: real where
  "audio_y = 60"

record item =
  rect_x :: real
  pos_x :: real

record TimelineWidget =
  project :: Project
  video_items :: "item option list"
  audio_items :: "item option list"

datatype clip_ref = VideoClip nat | AudioClip nat

fun with_items :: "Clip list \<Rightarrow> item option list \<Rightarrow> (Clip \<times> item option) list" where
  "with_items [] its = []"
| "with_items (c # cs) [] = (c, None) # with_items cs []"
| "with_items (c # cs) (it # its) = (c, it) # with_items cs its"

subsection \<open>\<open>_draw_clip\<close> and \<open>_draw_tracks\<close>\<close>

definition draw_clip :: "Project \<Rightarrow> Clip \<Rightarrow> item option" where
  "draw_clip p clip =
     (case map_of (media p) (media_id clip) of
        None \<Rightarrow> None
      | Some m \<Rightarrow> Some \<lparr>rect_x = start_time clip * pixels_per_second, pos_x = 0\<rparr>)"

definition draw_tracks :: "TimelineWidget \<Rightarrow> TimelineWidget" where
  "draw_tracks w =
     w\<lparr>video_items := map (draw_clip (project w)) (video_clips (project w)),
       audio_items := map (draw_clip (project w)) (audio_clips (project w))\<rparr>"

definition new_timeline :: "Project \<Rightarrow> TimelineWidget" where
  \<comment> \<open>\<open>TimelineWidget.__init__\<close>: the scene is drawn from the project it is given\<close>
  "new_timeline p = draw_tracks \<lparr>project = p, video_items = [], audio_items = []\<rparr>"

subsection \<open>\<open>dropEvent\<close>\<close>

definition sorted_items :: "Clip list \<Rightarrow> item option list \<Rightarrow> Clip \<Rightarrow> item option \<Rightarrow> item option list" where
  \<comment> \<open>the items of a track after \<open>add_clip\<close> appended the clip and sorted the track:
      each item stays with its clip\<close>
  "sorted_items clips its clip it =
     map snd (sort_key (\<lambda>ci. start_time (fst ci)) (with_items clips its @ [(clip, it)]))"

definition add_and_draw :: "Clip \<Rightarrow> string \<Rightarrow> TimelineWidget \<Rightarrow> TimelineWidget" where
  \<comment> \<open>\<open>self.project.add_clip(clip, track)\<close> followed by \<open>self._draw_clip(clip, track)\<close>\<close>
  "add_and_draw clip track w =
     (let p = add_clip clip track (project w);
          it = draw_clip p clip
      in if track = ''video''
         then w\<lparr>project := p,
                video_items := sorted_items (video_clips (project w)) (video_items w) clip it\<rparr>
         else w\<lparr>project := p,
                audio_items := sorted_items (audio_clips (project w)) (audio_items w) clip it\<rparr>)"

definition dropEvent ::
  "environment \<Rightarrow> string \<Rightarrow> real \<times> real \<Rightarrow> TimelineWidget \<times> process
     \<Rightarrow> TimelineWidget \<times> process" where
  "dropEvent env data pos ws =
     (case ws of (w, s) \<Rightarrow>
      if data = [] then (w, s)
      else (case map_of (media (project w)) data of
              None \<Rightarrow> (w, s)
            | Some m \<Rightarrow>
                (let track = (if snd pos < audio_y then ''video'' else ''audio'');
                     start = max 0 (fst pos / pixels_per_second)
                 in case get_media_duration env (path m) s of (duration, s') \<Rightarrow>
                      (add_and_draw \<lparr>media_id = data, in_point = 0, out_point = duration,
                                     start_time = start\<rparr> track w, s'))))"

subsection \<open>Dragging an item and \<open>mouseReleaseEvent\<close>\<close>

fun drag :: "clip_ref \<Rightarrow> real \<Rightarrow> TimelineWidget \<Rightarrow> TimelineWidget" where
  \<comment> \<open>the user drags the item of a clip by \<open>dx\<close>: the scene moves the item's position\<close>
  "drag (VideoClip i) dx w =
     (if i < length (video_items w)
      then w\<lparr>video_items :=
               (video_items w)[i := map_option (\<lambda>it. it\<lparr>pos_x := pos_x it + dx\<rparr>) (video_items w ! i)]\<rparr>
      else w)"
| "drag (AudioClip i) dx w =
     (if i < length (audio_items w)
      then w\<lparr>audio_items :=
               (audio_items w)[i := map_option (\<lambda>it. it\<lparr>pos_x := pos_x it + dx\<rparr>) (audio_items w ! i)]\<rparr>
      else w)"

definition release_clip :: "Clip \<times> item option \<Rightarrow> Clip \<times> item option" where
  \<comment> \<open>the body of the loop over \<open>graphics_to_clip.items()\<close>\<close>
  "release_clip ci =
     (case snd ci of
        None \<Rightarrow> ci
      | Some it \<Rightarrow>
          (let new_start = rect_x it / pixels_per_second
           in if new_start < 0
              then ((fst ci)\<lparr>start_time := 0\<rparr>, Some (it\<lparr>rect_x := 0\<rparr>))
              else ((fst ci)\<lparr>start_time := new_start\<rparr>, Some it)))"

definition mouseReleaseEvent :: "TimelineWidget \<Rightarrow> TimelineWidget" where
  "mouseReleaseEvent w =
     (let vs = map release_clip (with_items (video_clips (project w)) (video_items w));
          as = map release_clip (with_items (audio_clips (project w)) (audio_items w))
      in w\<lparr>project := (project w)\<lparr>video_clips := map fst vs, audio_clips := map fst as\<rparr>,
           video_items := map snd vs, audio_items := map snd as\<rparr>)"

subsection \<open>A session at the timeline\<close>

datatype action = Import MediaItem | Drop string real real | Drag clip_ref real | Release

fun perform :: "environment \<Rightarrow> action \<Rightarrow> TimelineWidget \<times> process \<Rightarrow> TimelineWidget \<times> process" where
  "perform env (Import m) (w, s) = (w\<lparr>project := add_media m (project w)\<rparr>, s)"
| "perform env (Drop data x y) (w, s) = dropEvent env data (x, y) (w, s)"
| "perform env (Drag r dx) (w, s) = (drag r dx w, s)"
| "perform env Release (w, s) = (mouseReleaseEvent w, s)"

definition session ::
  "environment \<Rightarrow> action list \<Rightarrow> TimelineWidget \<times> process \<Rightarrow> TimelineWidget \<times> process" where
  "session env acts ws = fold (perform env) acts ws"




section \<open>The project document\<close>

text \<open>
  \<open>to_dict\<close> builds a JSON-shaped value and \<open>from_dict\<close> reads one; \<open>save_to_file\<close> and
  \<open>load_from_file\<close> pass it through \<open>json.dump\<close> and \<open>json.load\<close>, which return the same
  value for documents of strings, numbers, lists and string-keyed dictionaries, so the
  file is modelled by the value. The records are typed, so a document with a field of
  the wrong type, which Python would store as it is, ends the load with \<open>TypeError\<close>.
\<close>

datatype json = JNull | JBool bool | JNum real | JStr string | JArr "json list"
  | JObj "(string \<times> json) list"

definition getitem :: "(string \<times> json) list \<Rightarrow> string \<Rightarrow> error + json" where
  "getitem d k = (case map_of d k of None \<Rightarrow> Inl (KeyError k) | Some v \<Rightarrow> Inr v)"

fun as_str :: "json \<Rightarrow> error + string" where
  "as_str (JStr s) = Inr s"
| "as_str _ = Inl TypeError"

fun as_num :: "json \<Rightarrow> error + real" where
  "as_num (JNum r) = Inr r"
| "as_num _ = Inl TypeError"

fun as_list :: "json \<Rightarrow> error + json list" where
  "as_list (JArr xs) = Inr xs"
| "as_list _ = Inl TypeError"

definition get_default :: "(string \<times> json) list \<Rightarrow> string \<Rightarrow> json \<Rightarrow> json" where
  "get_default d k dflt = (case map_of d k of None \<Rightarrow> dflt | Some v \<Rightarrow> v)"

definition MediaItem_to_dict :: "MediaItem \<Rightarrow> json" where
  "MediaItem_to_dict item =
     JObj [(''id'', JStr (item_id item)), (''path'', JStr (path item)),
           (''media_type'', JStr (media_type item)), (''thumbnail'', JStr (thumbnail item))]"

fun MediaItem_from_dict :: "json \<Rightarrow> error + MediaItem" where
  "MediaItem_from_dict (JObj d) =
     and_then (and_then (getitem d ''path'') as_str) (\<lambda>p.
     and_then (and_then (getitem d ''media_type'') as_str) (\<lambda>t.
     and_then (and_then (getitem d ''thumbnail'') as_str) (\<lambda>th.
     and_then (and_then (getitem d ''id'') as_str) (\<lambda>i.
       Inr \<lparr>path = p, media_type = t, thumbnail = th, item_id = i\<rparr>))))"
| "MediaItem_from_dict _ = Inl TypeError"

definition Clip_to_dict :: "Clip \<Rightarrow> json" where
  "Clip_to_dict clip =
     JObj [(''media_id'', JStr (media_id clip)), (''in'', JNum (in_point clip)),
           (''out'', JNum (out_point clip)), (''start'', JNum (start_time clip))]"

fun Clip_from_dict :: "json \<Rightarrow> error + Clip" where
  "Clip_from_dict (JObj d) =
     and_then (and_then (getitem d ''media_id'') as_str) (\<lambda>m.
     and_then (and_then (getitem d ''in'') as_num) (\<lambda>i.
     and_then (and_then (getitem d ''out'') as_num) (\<lambda>out.
     and_then (and_then (getitem d ''start'') as_num) (\<lambda>st.
       Inr \<lparr>media_id = m, in_point = i, out_point = out, start_time = st\<rparr>))))"
| "Clip_from_dict _ = Inl TypeError"

definition Project_init :: "environment \<Rightarrow> error + Project" where
  "Project_init env =
     (let ws = expanduser env ''~/video_editor_workspace'';
          ex = expanduser env ''~/Videos''
      in and_then (makedirs env ws) (\<lambda>_.
         and_then (makedirs env ex) (\<lambda>_.
           Inr \<lparr>media = [], video_clips = [], audio_clips = [],
                workspace_dir = ws, export_dir = ex\<rparr>)))"

definition to_dict :: "Project \<Rightarrow> json" where
  "to_dict p =
     JObj [(''media'', JArr (map (\<lambda>kv. MediaItem_to_dict (snd kv)) (media p))),
           (''video_clips'', JArr (map Clip_to_dict (video_clips p))),
           (''audio_clips'', JArr (map Clip_to_dict (audio_clips p))),
           (''workspace_dir'', JStr (workspace_dir p)),
           (''export_dir'', JStr (export_dir p))]"

fun load_media :: "json list \<Rightarrow> (string \<times> MediaItem) list \<Rightarrow> error + (string \<times> MediaItem) list" where
  "load_media [] acc = Inr acc"
| "load_media (m # ms) acc =
     and_then (MediaItem_from_dict m) (\<lambda>item. load_media ms (AList.update (item_id item) item acc))"

fun load_clips :: "json list \<Rightarrow> Clip list \<Rightarrow> error + Clip list" where
  "load_clips [] acc = Inr acc"
| "load_clips (c # cs) acc = and_then (Clip_from_dict c) (\<lambda>clip. load_clips cs (acc @ [clip]))"

fun from_dict :: "environment \<Rightarrow> json \<Rightarrow> error + Project" where
  "from_dict env (JObj data) =
     and_then (Project_init env) (\<lambda>proj.
     and_then (as_str (get_default data ''workspace_dir'' (JStr (workspace_dir proj)))) (\<lambda>ws.
     and_then (as_str (get_default data ''export_dir'' (JStr (export_dir proj)))) (\<lambda>ex.
     and_then (makedirs env ws) (\<lambda>_.
     and_then (makedirs env ex) (\<lambda>_.
     and_then (and_then (as_list (get_default data ''media'' (JArr []))) (\<lambda>ms. load_media ms (media proj))) (\<lambda>md.
     and_then (and_then (as_list (get_default data ''video_clips'' (JArr []))) (\<lambda>cs. load_clips cs (video_clips proj))) (\<lambda>vs.
     and_then (and_then (as_list (get_default data ''audio_clips'' (JArr []))) (\<lambda>cs. load_clips cs (audio_clips proj))) (\<lambda>as.
       Inr \<lparr>media = md, video_clips = vs, audio_clips = as,
            workspace_dir = ws, export_dir = ex\<rparr>))))))))"
| "from_dict env _ = Inl TypeError"

definition media_keyed_by_id :: "Project \<Rightarrow> bool" where
  "media_keyed_by_id p =
     (distinct (map fst (media p)) \<and> list_all (\<lambda>kv. item_id (snd kv) = fst kv) (media p))"

section \<open>Export\<close>

subsection \<open>Formatting\<close>

definition digit_char :: "nat \<Rightarrow> char" where
  "digit_char d = ''0123456789'' ! (d mod 10)"

function str_nat :: "nat \<Rightarrow> string" where
  "str_nat n = (if n < 10 then [digit_char n] else str_nat (n div 10) @ [digit_char (n mod 10)])"
  by pat_completeness auto
termination
  by (relation "measure id") auto

declare str_nat.simps [simp del]

definition str_int :: "int \<Rightarrow> string" where
  "str_int i = (if i < 0 then ''-'' @ str_nat (nat (- i)) else str_nat (nat i))"

definition fmt_03d :: "nat \<Rightarrow> string" where
  \<comment> \<open>the format \<open>{idx:03d}\<close>: decimal, padded with zeros to three digits\<close>
  "fmt_03d n = (let t = str_nat n in replicate (3 - length t) (CHR ''0'') @ t)"

definition py_int :: "real \<Rightarrow> int" where
  \<comment> \<open>\<open>int(x)\<close> of a float truncates towards zero\<close>
  "py_int x = (if x < 0 then \<lceil>x\<rceil> else \<lfloor>x\<rfloor>)"

subsection \<open>Running the engine\<close>

definition cmd_output :: "arg list \<Rightarrow> string option" where
  "cmd_output cmd = (if cmd = [] then None else (case last cmd of Str f \<Rightarrow> Some f | Float _ \<Rightarrow> None))"

definition subprocess_run :: "environment \<Rightarrow> arg list \<Rightarrow> process \<Rightarrow> bool \<times> process" where
  "subprocess_run env cmd s =
     (case run_ffmpeg env cmd (files s) of (ok, written) \<Rightarrow>
        (ok, s\<lparr>trace := trace s @ [Run cmd],
               files := (case cmd_output cmd of
                           None \<Rightarrow> files s
                         | Some f \<Rightarrow> (case written of None \<Rightarrow> files s
                                      | Some c \<Rightarrow> (files s)(f \<mapsto> c)))\<rparr>))"

definition run_checked :: "environment \<Rightarrow> arg list \<Rightarrow> process \<Rightarrow> (error + unit) \<times> process" where
  \<comment> \<open>\<open>subprocess.run(cmd, ..., check=True)\<close>: a failed command raises \<open>CalledProcessError\<close>\<close>
  "run_checked env cmd s =
     (case subprocess_run env cmd s of (ok, s') \<Rightarrow>
        (if ok then Inr () else Inl (CalledProcessError cmd), s'))"

definition write_file :: "string \<Rightarrow> string \<Rightarrow> process \<Rightarrow> process" where
  "write_file f content s =
     s\<lparr>trace := trace s @ [WriteFile f content], files := (files s)(f \<mapsto> content)\<rparr>"

subsection \<open>The command lines of \<open>_export_with_ffmpeg\<close>\<close>

definition video_trim_cmd :: "Clip \<Rightarrow> string \<Rightarrow> string \<Rightarrow> arg list" where
  "video_trim_cmd clip media_path tmp_out =
     [Str ''ffmpeg'', Str ''-y'', Str ''-ss'', Float (in_point clip), Str ''-i'', Str media_path,
      Str ''-to'', Float (out_point clip - in_point clip), Str ''-c'', Str ''copy'', Str tmp_out]"

definition audio_trim_cmd :: "Clip \<Rightarrow> string \<Rightarrow> string \<Rightarrow> arg list" where
  "audio_trim_cmd clip media_path tmp_out =
     [Str ''ffmpeg'', Str ''-y'', Str ''-ss'', Float (in_point clip), Str ''-i'', Str media_path,
      Str ''-to'', Float (out_point clip - in_point clip), Str ''-q:a'', Str ''0'', Str tmp_out]"

definition concat_cmd :: "string \<Rightarrow> string \<Rightarrow> arg list" where
  "concat_cmd concat_list_path video_concat_path =
     [Str ''ffmpeg'', Str ''-y'', Str ''-f'', Str ''concat'', Str ''-safe'', Str ''0'', Str ''-i'',
      Str concat_list_path, Str ''-c'', Str ''copy'', Str video_concat_path]"

definition final_cmd_video_only :: "string \<Rightarrow> string \<Rightarrow> arg list" where
  "final_cmd_video_only video_concat_path output_path =
     [Str ''ffmpeg'', Str ''-y'', Str ''-i'', Str video_concat_path, Str ''-c:v'', Str ''libx264'',
      Str ''-c:a'', Str ''aac'', Str ''-preset'', Str ''fast'', Str output_path]"

definition final_cmd_mix :: "string \<Rightarrow> arg list \<Rightarrow> string \<Rightarrow> string \<Rightarrow> arg list" where
  "final_cmd_mix video_concat_path input_cmds filter_complex output_path =
     [Str ''ffmpeg'', Str ''-y'', Str ''-i'', Str video_concat_path] @ input_cmds @
     [Str ''-filter_complex'', Str filter_complex, Str ''-map'', Str ''0:v'', Str ''-map'',
      Str ''[aout]'', Str ''-c:v'', Str ''libx264'', Str ''-c:a'', Str ''aac'', Str ''-preset'',
      Str ''fast'', Str output_path]"

definition concat_list_line :: "string \<Rightarrow> string" where
  \<comment> \<open>the line \<open>file '<path>'\<close> and a newline\<close>
  "concat_list_line file_path = ''file '' @ [CHR 0x27] @ file_path @ [CHR 0x27, CHR 0x0A]"

subsection \<open>The loops of \<open>_export_with_ffmpeg\<close>\<close>

fun trim_video_clips ::
  "environment \<Rightarrow> Project \<Rightarrow> string \<Rightarrow> (nat \<times> Clip) list \<Rightarrow> string list \<Rightarrow> process
     \<Rightarrow> (error + string list) \<times> process" where
  "trim_video_clips env p temp_dir [] tmp_video_files s = (Inr tmp_video_files, s)"
| "trim_video_clips env p temp_dir ((idx, clip) # rest) tmp_video_files s =
     (case map_of (media p) (media_id clip) of
        None \<Rightarrow> (Inl (KeyError (media_id clip)), s)
      | Some m \<Rightarrow>
          (let tmp_out = path_join temp_dir (''v_'' @ fmt_03d idx @ ''.mp4'');
               cmd = video_trim_cmd clip (path m) tmp_out
           in case run_checked env cmd s of
                (Inl e, s') \<Rightarrow> (Inl e, s')
              | (Inr _, s') \<Rightarrow>
                  trim_video_clips env p temp_dir rest (tmp_video_files @ [tmp_out]) s'))"

fun trim_audio_clips ::
  "environment \<Rightarrow> Project \<Rightarrow> string \<Rightarrow> (nat \<times> Clip) list \<Rightarrow> (string \<times> real) list \<Rightarrow> process
     \<Rightarrow> (error + (string \<times> real) list) \<times> process" where
  "trim_audio_clips env p temp_dir [] tmp_audio_files s = (Inr tmp_audio_files, s)"
| "trim_audio_clips env p temp_dir ((idx, clip) # rest) tmp_audio_files s =
     (case map_of (media p) (media_id clip) of
        None \<Rightarrow> (Inl (KeyError (media_id clip)), s)
      | Some m \<Rightarrow>
          (let tmp_out = path_join temp_dir (''a_'' @ fmt_03d idx @ ''.mp3'');
               cmd = audio_trim_cmd clip (path m) tmp_out
           in case run_checked env cmd s of
                (Inl e, s') \<Rightarrow> (Inl e, s')
              | (Inr _, s') \<Rightarrow>
                  trim_audio_clips env p temp_dir rest
                    (tmp_audio_files @ [(tmp_out, start_time clip)]) s'))"

definition delay_part :: "nat \<Rightarrow> int \<Rightarrow> string" where
  \<comment> \<open>\<open>f"[{idx}:a]adelay={delay_ms}|{delay_ms}[a{idx}];"\<close>\<close>
  "delay_part idx delay_ms =
     ''['' @ str_nat idx @ '':a]adelay='' @ str_int delay_ms @ ''|'' @ str_int delay_ms @
     ''[a'' @ str_nat idx @ ''];''"

fun build_filter ::
  "(nat \<times> string \<times> real) list \<Rightarrow> string list \<Rightarrow> arg list \<Rightarrow> string list \<times> arg list" where
  "build_filter [] filter_parts input_cmds = (filter_parts, input_cmds)"
| "build_filter ((idx, audio_path, start) # rest) filter_parts input_cmds =
     (let input_cmds' = input_cmds @ [Str ''-i'', Str audio_path];
          delay_ms = py_int (start * 1000)
      in build_filter rest (filter_parts @ [delay_part idx delay_ms]) input_cmds')"

definition mix_part :: "nat \<Rightarrow> string" where
  \<comment> \<open>\<open>f"{mix_inputs}amix=inputs={n}:duration=longest[aout]"\<close>\<close>
  "mix_part n =
     concat (map (\<lambda>idx. ''[a'' @ str_nat idx @ '']'') [0..<n]) @
     ''amix=inputs='' @ str_nat n @ '':duration=longest[aout]''"

definition mix_cmd :: "string \<Rightarrow> (string \<times> real) list \<Rightarrow> string \<Rightarrow> arg list" where
  "mix_cmd video_concat_path tmp_audio_files output_path =
     (case build_filter (enumerate 0 tmp_audio_files) [] [] of (parts, input_cmds) \<Rightarrow>
        (let filter_parts = parts @ [mix_part (length tmp_audio_files)];
             filter_complex = concat filter_parts
         in final_cmd_mix video_concat_path input_cmds filter_complex output_path))"

subsection \<open>\<open>MainWindow._export_with_ffmpeg\<close> and \<open>MainWindow.export_project\<close>\<close>

definition export_with_ffmpeg ::
  "environment \<Rightarrow> Project \<Rightarrow> string \<Rightarrow> process \<Rightarrow> (error + unit) \<times> process" where
  "export_with_ffmpeg env p output_path s0 =
     (let temp_dir = path_join (workspace_dir p) ''export_tmp'' in
      case makedirs env temp_dir of
        Inl e \<Rightarrow> (Inl e, s0)
      | Inr _ \<Rightarrow>
      (case trim_video_clips env p temp_dir (enumerate 0 (video_clips p)) [] s0 of
         (Inl e, s1) \<Rightarrow> (Inl e, s1)
       | (Inr tmp_video_files, s1) \<Rightarrow>
           (let concat_list_path = path_join temp_dir ''video_list.txt'';
                s2 = write_file concat_list_path (concat (map concat_list_line tmp_video_files)) s1;
                video_concat_path = path_join temp_dir ''video_concat.mp4''
            in case run_checked env (concat_cmd concat_list_path video_concat_path) s2 of
                 (Inl e, s3) \<Rightarrow> (Inl e, s3)
               | (Inr _, s3) \<Rightarrow>
                   if audio_clips p = []
                   then run_checked env (final_cmd_video_only video_concat_path output_path) s3
                   else (case trim_audio_clips env p temp_dir (enumerate 0 (audio_clips p)) [] s3 of
                           (Inl e, s4) \<Rightarrow> (Inl e, s4)
                         | (Inr tmp_audio_files, s4) \<Rightarrow>
                             run_checked env (mix_cmd video_concat_path tmp_audio_files output_path) s4))))"

datatype outcome = FFmpegMissing | NothingToExport | Cancelled | ExportError error
  | ExportComplete string

definition endswith :: "string \<Rightarrow> string \<Rightarrow> bool" where
  "endswith t suffix = (length suffix \<le> length t \<and> drop (length t - length suffix) t = suffix)"

definition export_project ::
  "environment \<Rightarrow> Project \<Rightarrow> string \<Rightarrow> process \<Rightarrow> outcome \<times> process" where
  \<comment> \<open>\<open>chosen\<close> is what the save dialog returns, empty when the user cancels\<close>
  "export_project env p chosen s0 =
     (case ffprobe_installed env s0 of (installed, s1) \<Rightarrow>
        if \<not> installed then (FFmpegMissing, s1)
        else if video_clips p = [] then (NothingToExport, s1)
        else if chosen = [] then (Cancelled, s1)
        else (let output_path = (if endswith chosen ''.mp4'' then chosen else chosen @ ''.mp4'')
              in case export_with_ffmpeg env p output_path s1 of
                   (Inl e, s2) \<Rightarrow> (ExportError e, s2)
                 | (Inr _, s2) \<Rightarrow> (ExportComplete output_path, s2)))"

section \<open>The export as a plan of steps\<close>

text \<open>
  The specification describes the export as a plan: trim steps, a concatenation, and a
  final command. The definitions of this section state that plan on its own, as a list
  of steps run in order until one fails; the theorems compare it with
  \<^const>\<open>export_with_ffmpeg\<close>.
\<close>

fun run_steps :: "environment \<Rightarrow> event list \<Rightarrow> process \<Rightarrow> (error + unit) \<times> process" where
  "run_steps env [] s = (Inr (), s)"
| "run_steps env (Run cmd # rest) s =
     (case run_checked env cmd s of
        (Inl e, s') \<Rightarrow> (Inl e, s')
      | (Inr _, s') \<Rightarrow> run_steps env rest s')"
| "run_steps env (WriteFile f content # rest) s = run_steps env rest (write_file f content s)"

fun event_output :: "event \<Rightarrow> string option" where
  "event_output (Run cmd) = cmd_output cmd"
| "event_output (WriteFile f content) = Some f"

definition temp_dir_of :: "Project \<Rightarrow> string" where
  "temp_dir_of p = path_join (workspace_dir p) ''export_tmp''"

definition video_tmp_file :: "string \<Rightarrow> nat \<Rightarrow> string" where
  "video_tmp_file temp_dir idx = path_join temp_dir (''v_'' @ fmt_03d idx @ ''.mp4'')"

definition audio_tmp_file :: "string \<Rightarrow> nat \<Rightarrow> string" where
  "audio_tmp_file temp_dir idx = path_join temp_dir (''a_'' @ fmt_03d idx @ ''.mp3'')"

definition concat_list_path_of :: "Project \<Rightarrow> string" where
  "concat_list_path_of p = path_join (temp_dir_of p) ''video_list.txt''"

definition video_concat_path_of :: "Project \<Rightarrow> string" where
  "video_concat_path_of p = path_join (temp_dir_of p) ''video_concat.mp4''"

definition source_path :: "Project \<Rightarrow> Clip \<Rightarrow> string" where
  "source_path p c = (case map_of (media p) (media_id c) of Some m \<Rightarrow> path m | None \<Rightarrow> [])"

definition media_resolves :: "Project \<Rightarrow> bool" where
  "media_resolves p =
     list_all (\<lambda>c. map_of (media p) (media_id c) \<noteq> None) (video_clips p @ audio_clips p)"

definition video_step :: "Project \<Rightarrow> nat \<times> Clip \<Rightarrow> event" where
  "video_step p ic =
     Run (video_trim_cmd (snd ic) (source_path p (snd ic)) (video_tmp_file (temp_dir_of p) (fst ic)))"

definition audio_step :: "Project \<Rightarrow> nat \<times> Clip \<Rightarrow> event" where
  "audio_step p ic =
     Run (audio_trim_cmd (snd ic) (source_path p (snd ic)) (audio_tmp_file (temp_dir_of p) (fst ic)))"

definition video_steps :: "Project \<Rightarrow> event list" where
  "video_steps p = map (video_step p) (enumerate 0 (video_clips p))"

definition concat_steps :: "Project \<Rightarrow> event list" where
  "concat_steps p =
     [WriteFile (concat_list_path_of p)
        (concat (map (\<lambda>ic. concat_list_line (video_tmp_file (temp_dir_of p) (fst ic)))
                   (enumerate 0 (video_clips p)))),
      Run (concat_cmd (concat_list_path_of p) (video_concat_path_of p))]"

definition audio_segments :: "Project \<Rightarrow> (string \<times> real) list" where
  "audio_segments p =
     map (\<lambda>ic. (audio_tmp_file (temp_dir_of p) (fst ic), start_time (snd ic)))
       (enumerate 0 (audio_clips p))"

definition final_cmd_of :: "Project \<Rightarrow> string \<Rightarrow> arg list" where
  "final_cmd_of p output_path =
     (if audio_clips p = [] then final_cmd_video_only (video_concat_path_of p) output_path
      else mix_cmd (video_concat_path_of p) (audio_segments p) output_path)"

definition audio_steps :: "Project \<Rightarrow> event list" where
  "audio_steps p = map (audio_step p) (enumerate 0 (audio_clips p))"

definition export_plan :: "Project \<Rightarrow> string \<Rightarrow> event list" where
  "export_plan p output_path =
     video_steps p @ concat_steps p @ audio_steps p @ [Run (final_cmd_of p output_path)]"

definition intermediate_files :: "Project \<Rightarrow> string list" where
  "intermediate_files p =
     map (\<lambda>ic. video_tmp_file (temp_dir_of p) (fst ic)) (enumerate 0 (video_clips p)) @
     [concat_list_path_of p, video_concat_path_of p] @
     map (\<lambda>ic. audio_tmp_file (temp_dir_of p) (fst ic)) (enumerate 0 (audio_clips p))"

fun ffmpeg_inputs :: "arg list \<Rightarrow> arg list" where
  \<comment> \<open>the input files of a command line, in the order ffmpeg numbers them from 0: the
      arguments that follow each \<open>-i\<close>\<close>
  "ffmpeg_inputs (a # b # rest) =
     (if a = Str ''-i'' then b # ffmpeg_inputs rest else ffmpeg_inputs (b # rest))"
| "ffmpeg_inputs _ = []"

section \<open>Example inputs\<close>

definition engine_ok :: "arg list \<Rightarrow> (string \<Rightarrow> string option) \<Rightarrow> bool \<times> string option" where
  "engine_ok cmd fs = (True, Some ''media'')"

definition engine_fails_encoding :: "arg list \<Rightarrow> (string \<Rightarrow> string option) \<Rightarrow> bool \<times> string option" where
  \<comment> \<open>an engine that fails in the final command (the only one that encodes), leaving the
      part of the output it had written\<close>
  "engine_fails_encoding cmd fs =
     (if Str ''libx264'' \<in> set cmd then (False, Some ''partial'') else (True, Some ''media''))"

definition probe_none :: "string \<Rightarrow> real option" where
  "probe_none f = None"

definition probe_42 :: "string \<Rightarrow> real option" where
  "probe_42 f = Some 42"

definition any_dir :: "string \<Rightarrow> bool" where
  "any_dir d = True"

definition env_ok :: environment where
  "env_ok = \<lparr>ffprobe_on_path = True, ffprobe_duration = probe_42, makedirs_ok = any_dir,
             home = ''/home/u'', run_ffmpeg = engine_ok\<rparr>"

definition env_probe_fails :: environment where
  "env_probe_fails = env_ok\<lparr>ffprobe_duration := probe_none\<rparr>"

definition env_no_ffprobe :: environment where
  "env_no_ffprobe = env_ok\<lparr>ffprobe_on_path := False\<rparr>"

definition env_final_fails :: environment where
  "env_final_fails = env_ok\<lparr>run_ffmpeg := engine_fails_encoding\<rparr>"

definition no_cache :: "string \<Rightarrow> real option" where
  "no_cache f = None"

definition no_files :: "string \<Rightarrow> string option" where
  "no_files f = None"

definition fresh_process :: process where
  "fresh_process = \<lparr>cache = no_cache, trace = [], files = no_files\<rparr>"

definition empty_project :: Project where
  "empty_project = \<lparr>media = [], video_clips = [], audio_clips = [], workspace_dir = ''/w'',
                     export_dir = ''/e''\<rparr>"

definition demo_media :: "(string \<times> MediaItem) list" where
  "demo_media =
     [(''m1'', \<lparr>path = ''/src/a.mp4'', media_type = ''video'', thumbnail = ''/w/t/a.jpg'', item_id = ''m1''\<rparr>),
      (''m2'', \<lparr>path = ''/src/b.mp3'', media_type = ''audio'', thumbnail = ''/w/t/b.jpg'', item_id = ''m2''\<rparr>),
      (''m3'', \<lparr>path = ''/src/c.png'', media_type = ''image'', thumbnail = ''/w/t/c.jpg'', item_id = ''m3''\<rparr>)]"

definition project_two_videos :: Project where
  \<comment> \<open>two video clips of 3 s and 4 s, no audio clip\<close>
  "project_two_videos =
     empty_project\<lparr>media := demo_media,
       video_clips := [\<lparr>media_id = ''m1'', in_point = 0, out_point = 3, start_time = 0\<rparr>,
                       \<lparr>media_id = ''m1'', in_point = 2, out_point = 6, start_time = 10\<rparr>]\<rparr>"

definition project_two_audios :: Project where
  \<comment> \<open>one video clip and two audio clips at 0 s and 2.5 s\<close>
  "project_two_audios =
     empty_project\<lparr>media := demo_media,
       video_clips := [\<lparr>media_id = ''m1'', in_point = 0, out_point = 3, start_time = 0\<rparr>],
       audio_clips := [\<lparr>media_id = ''m2'', in_point = 0, out_point = 5, start_time = 0\<rparr>,
                       \<lparr>media_id = ''m2'', in_point = 1, out_point = 2, start_time = 5 / 2\<rparr>]\<rparr>"

definition project_full :: Project where
  \<comment> \<open>an asset of each kind and two clips on each track\<close>
  "project_full =
     project_two_audios\<lparr>
       video_clips := [\<lparr>media_id = ''m1'', in_point = 0, out_point = 3, start_time = 0\<rparr>,
                       \<lparr>media_id = ''m3'', in_point = 0, out_point = 10, start_time = 3\<rparr>]\<rparr>"

definition engine_fails_concat :: "arg list \<Rightarrow> (string \<Rightarrow> string option) \<Rightarrow> bool \<times> string option" where
  \<comment> \<open>an engine that fails in the concatenation and writes nothing there\<close>
  "engine_fails_concat cmd fs =
     (if Str ''concat'' \<in> set cmd then (False, None) else (True, Some ''media''))"

definition env_concat_fails :: environment where
  "env_concat_fails = env_ok\<lparr>run_ffmpeg := engine_fails_concat\<rparr>"

definition media_a :: MediaItem where
  "media_a = \<lparr>path = ''/src/a.mp4'', media_type = ''video'', thumbnail = ''/w/t/a.jpg'', item_id = ''m1''\<rparr>"

definition place_drag_release :: "action list" where
  \<comment> \<open>import a file, place it at 2 s (x = 200) on the video track, drag its item 450
      pixels to the left (to x = -250), release\<close>
  "place_drag_release = [Import media_a, Drop ''m1'' 200 10, Drag (VideoClip 0) (- 450), Release]"


section \<open>Placement\<close>



lemma add_clip_stable:
  "filter (\<lambda>c. start_time c = k) (video_clips (add_clip c ''video'' p)) =
   filter (\<lambda>c. start_time c = k) (video_clips p @ [c])"
  by (simp add: add_clip_def sort_key_stable del: filter_append)

text \<open>
  C10. \<open>add_clip\<close> is total over track labels: the label \<open>"video"\<close> puts the clip on
  the video track and leaves the audio track alone; every other label, not only
  \<open>"audio"\<close>, puts it on the audio track and leaves the video track alone. The clip is
  appended and the track then sorted by start time; no label raises an error (the
  function returns a project for every input).
\<close>

theorem add_clip_total_over_labels:
  "(t = ''video'' \<longrightarrow>
      video_clips (add_clip c t p) = sort_key start_time (video_clips p @ [c]) \<and>
      audio_clips (add_clip c t p) = audio_clips p) \<and>
   (t \<noteq> ''video'' \<longrightarrow>
      audio_clips (add_clip c t p) = sort_key start_time (audio_clips p @ [c]) \<and>
      video_clips (add_clip c t p) = video_clips p) \<and>
   media (add_clip c t p) = media p \<and>
   workspace_dir (add_clip c t p) = workspace_dir p \<and>
   export_dir (add_clip c t p) = export_dir p"
  by (simp add: add_clip_def)

theorem add_clip_total_over_labels_witness:
  "''subtitles'' \<noteq> ''video'' \<and> ''video'' = ''video'' \<and>
   audio_clips (add_clip \<lparr>media_id = ''m1'', in_point = 0, out_point = 10, start_time = 2\<rparr> ''subtitles''
      \<lparr>media = [], video_clips = [], audio_clips = [], workspace_dir = ''w'', export_dir = ''e''\<rparr>)
     = [\<lparr>media_id = ''m1'', in_point = 0, out_point = 10, start_time = 2\<rparr>] \<and>
   video_clips (add_clip \<lparr>media_id = ''m1'', in_point = 0, out_point = 10, start_time = 2\<rparr> ''video''
      \<lparr>media = [], video_clips = [], audio_clips = [], workspace_dir = ''w'', export_dir = ''e''\<rparr>)
     = [\<lparr>media_id = ''m1'', in_point = 0, out_point = 10, start_time = 2\<rparr>]"
  using add_clip_total_over_labels [of "''subtitles''" "\<lparr>media_id = ''m1'', in_point = 0, out_point = 10, start_time = 2\<rparr>"
      "\<lparr>media = [], video_clips = [], audio_clips = [], workspace_dir = ''w'', export_dir = ''e''\<rparr>"]
    add_clip_total_over_labels [of "''video''" "\<lparr>media_id = ''m1'', in_point = 0, out_point = 10, start_time = 2\<rparr>"
      "\<lparr>media = [], video_clips = [], audio_clips = [], workspace_dir = ''w'', export_dir = ''e''\<rparr>"]
  by simp

section \<open>Saving and loading a project\<close>

lemma MediaItem_round_trip: "MediaItem_from_dict (MediaItem_to_dict m) = Inr m"
  by (simp add: MediaItem_to_dict_def getitem_def and_then_def)

lemma Clip_round_trip: "Clip_from_dict (Clip_to_dict c) = Inr c"
  by (simp add: Clip_to_dict_def getitem_def and_then_def)

lemma load_clips_round_trip: "load_clips (map Clip_to_dict cs) acc = Inr (acc @ cs)"
  by (induction cs arbitrary: acc) (simp_all add: Clip_round_trip and_then_def)

lemma update_fresh: "k \<notin> fst ` set al \<Longrightarrow> AList.update k v al = al @ [(k, v)]"
  by (induction al) auto

lemma load_media_round_trip:
  "distinct (map fst (acc @ kvs)) \<Longrightarrow> list_all (\<lambda>kv. item_id (snd kv) = fst kv) kvs \<Longrightarrow>
   load_media (map (\<lambda>kv. MediaItem_to_dict (snd kv)) kvs) acc = Inr (acc @ kvs)"
proof (induction kvs arbitrary: acc)
  case Nil
  then show ?case by simp
next
  case (Cons kv kvs)
  obtain k m where kv: "kv = (k, m)" by (cases kv)
  from Cons.prems kv have fresh: "k \<notin> fst ` set acc" and idk: "item_id m = k"
    by auto
  from Cons.prems kv have "distinct (map fst ((acc @ [(k, m)]) @ kvs))"
    by auto
  moreover from Cons.prems have "list_all (\<lambda>kv. item_id (snd kv) = fst kv) kvs"
    by simp
  ultimately have "load_media (map (\<lambda>kv. MediaItem_to_dict (snd kv)) kvs) (acc @ [(k, m)]) =
      Inr ((acc @ [(k, m)]) @ kvs)"
    by (rule Cons.IH)
  then show ?case
    by (simp add: kv MediaItem_round_trip and_then_def idk update_fresh [OF fresh])
qed

lemma Project_init_keyed: "Project_init env = Inr p \<Longrightarrow> media_keyed_by_id p"
  by (auto simp add: Project_init_def Let_def and_then_def makedirs_def media_keyed_by_id_def
      split: if_splits)

lemma update_keyed:
  "list_all (\<lambda>kv. item_id (snd kv) = fst kv) al \<Longrightarrow>
   list_all (\<lambda>kv. item_id (snd kv) = fst kv) (AList.update (item_id m) m al)"
  by (induction al) auto

lemma add_media_keyed: "media_keyed_by_id p \<Longrightarrow> media_keyed_by_id (add_media item p)"
  by (simp add: media_keyed_by_id_def add_media_def distinct_update update_keyed)

text \<open>
  C1. Loading what was saved gives the project back: \<open>from_dict (to_dict p) = p\<close>, on
  every field: the media items with id, path, media type and thumbnail, the clips of
  both tracks in order with media id, in, out and start, and the two directories. The
  project's media dictionary is keyed by the items' ids, as \<open>Project.__init__\<close>,
  \<open>add_media\<close> and \<open>from_dict\<close> build it (lemmas \<open>Project_init_keyed\<close>,
  \<open>add_media_keyed\<close>), and the directories that \<open>from_dict\<close> creates can be created.
\<close>

theorem load_save_round_trip:
  assumes "media_keyed_by_id p"
    and "makedirs_ok env (expanduser env ''~/video_editor_workspace'')"
    and "makedirs_ok env (expanduser env ''~/Videos'')"
    and "makedirs_ok env (workspace_dir p)"
    and "makedirs_ok env (export_dir p)"
  shows "from_dict env (to_dict p) = Inr p"
proof -
  from assms(1) have m: "load_media (map (\<lambda>kv. MediaItem_to_dict (snd kv)) (media p)) [] = Inr (media p)"
    using load_media_round_trip [of "[]" "media p"] by (simp add: media_keyed_by_id_def)
  show ?thesis
    using assms(2-5) m
    by (simp add: to_dict_def Project_init_def Let_def makedirs_def and_then_def get_default_def
        load_clips_round_trip)
qed

theorem load_save_round_trip_witness:
  "media_keyed_by_id project_full \<and>
   makedirs_ok env_ok (expanduser env_ok ''~/video_editor_workspace'') \<and>
   makedirs_ok env_ok (expanduser env_ok ''~/Videos'') \<and>
   makedirs_ok env_ok (workspace_dir project_full) \<and>
   makedirs_ok env_ok (export_dir project_full) \<and>
   length (media project_full) = 3 \<and> length (video_clips project_full) = 2 \<and>
   length (audio_clips project_full) = 2 \<and>
   from_dict env_ok (to_dict project_full) = Inr project_full"
  using load_save_round_trip [of project_full env_ok]
  by (simp add: media_keyed_by_id_def project_full_def project_two_audios_def empty_project_def
      demo_media_def env_ok_def any_dir_def)

section \<open>Exporting with an empty video track\<close>

text \<open>
  C6, as stated: exporting a project whose video track is empty ends with the empty
  timeline error. \<open>export_project\<close> looks for \<open>ffprobe\<close> first, so without it the
  export of an empty project ends with the missing-FFmpeg warning instead of the
  "Nothing to Export" notice.
\<close>

theorem export_empty_track_counterexample:
  "video_clips empty_project = [] \<and>
   fst (export_project env_no_ffprobe empty_project ''/e/out'' fresh_process) = FFmpegMissing \<and>
   fst (export_project env_no_ffprobe empty_project ''/e/out'' fresh_process) \<noteq> NothingToExport"
  by (simp add: export_project_def ffprobe_installed_def env_no_ffprobe_def env_ok_def
      empty_project_def)

text \<open>
  C6, amended. Exporting a project whose video track is empty ends with the "Nothing to
  Export" notice when \<open>ffprobe\<close> is available, and with the missing-FFmpeg warning when
  it is not. In both cases the only subprocess started is the availability check
  \<open>ffprobe -version\<close>: no trim, concat, mix or mux command is issued, and no file is
  written.
\<close>

theorem export_empty_track:
  assumes "video_clips p = []"
  shows "fst (export_project env p chosen s) =
           (if ffprobe_on_path env then NothingToExport else FFmpegMissing) \<and>
         trace (snd (export_project env p chosen s)) =
           trace s @ [Run [Str ''ffprobe'', Str ''-version'']] \<and>
         files (snd (export_project env p chosen s)) = files s"
  using assms by (simp add: export_project_def ffprobe_installed_def)

theorem export_empty_track_witness:
  "video_clips empty_project = [] \<and> ffprobe_on_path env_ok \<and>
   export_project env_ok empty_project ''/e/out'' fresh_process =
     (NothingToExport, fresh_process\<lparr>trace := [Run [Str ''ffprobe'', Str ''-version'']]\<rparr>)"
  using export_empty_track [of empty_project env_ok "''/e/out''" fresh_process]
  by (simp add: export_project_def ffprobe_installed_def env_ok_def empty_project_def
      fresh_process_def)

section \<open>The export runs its plan\<close>

lemma run_steps_append:
  "run_steps env (xs @ ys) s =
     (case run_steps env xs s of (Inl e, s') \<Rightarrow> (Inl e, s') | (Inr u, s') \<Rightarrow> run_steps env ys s')"
proof (induction xs arbitrary: s)
  case Nil
  then show ?case by simp
next
  case (Cons x xs)
  then show ?case
    by (cases x) (simp_all split: prod.splits sum.splits)
qed

lemma trim_video_clips_steps:
  assumes "list_all (\<lambda>ic. map_of (media p) (media_id (snd ic)) \<noteq> None) ics"
  shows "trim_video_clips env p (temp_dir_of p) ics acc s =
     (case run_steps env (map (video_step p) ics) s of
        (Inl e, s') \<Rightarrow> (Inl e, s')
      | (Inr u, s') \<Rightarrow> (Inr (acc @ map (\<lambda>ic. video_tmp_file (temp_dir_of p) (fst ic)) ics), s'))"
  using assms
proof (induction ics arbitrary: acc s)
  case Nil
  then show ?case by simp
next
  case (Cons ic ics)
  obtain idx c where ic: "ic = (idx, c)" by (cases ic)
  from Cons.prems ic obtain m where m: "map_of (media p) (media_id c) = Some m"
    by auto
  from Cons.prems have rest: "list_all (\<lambda>ic. map_of (media p) (media_id (snd ic)) \<noteq> None) ics"
    by simp
  show ?case
    by (simp add: ic m Let_def video_step_def source_path_def video_tmp_file_def
        Cons.IH [OF rest] split: prod.splits sum.splits)
qed

lemma trim_audio_clips_steps:
  assumes "list_all (\<lambda>ic. map_of (media p) (media_id (snd ic)) \<noteq> None) ics"
  shows "trim_audio_clips env p (temp_dir_of p) ics acc s =
     (case run_steps env (map (audio_step p) ics) s of
        (Inl e, s') \<Rightarrow> (Inl e, s')
      | (Inr u, s') \<Rightarrow>
          (Inr (acc @ map (\<lambda>ic. (audio_tmp_file (temp_dir_of p) (fst ic), start_time (snd ic))) ics), s'))"
  using assms
proof (induction ics arbitrary: acc s)
  case Nil
  then show ?case by simp
next
  case (Cons ic ics)
  obtain idx c where ic: "ic = (idx, c)" by (cases ic)
  from Cons.prems ic obtain m where m: "map_of (media p) (media_id c) = Some m"
    by auto
  from Cons.prems have rest: "list_all (\<lambda>ic. map_of (media p) (media_id (snd ic)) \<noteq> None) ics"
    by simp
  show ?case
    by (simp add: ic m Let_def audio_step_def source_path_def audio_tmp_file_def
        Cons.IH [OF rest] split: prod.splits sum.splits)
qed

lemma list_all_enumerate:
  "list_all P xs \<Longrightarrow> list_all (\<lambda>ic. P (snd ic)) (enumerate n xs)"
  by (induction xs arbitrary: n) simp_all

lemma export_is_plan:
  assumes "media_resolves p" and "makedirs_ok env (temp_dir_of p)"
  shows "export_with_ffmpeg env p output_path s = run_steps env (export_plan p output_path) s"
proof -
  from assms(1) have v0: "list_all (\<lambda>c. map_of (media p) (media_id c) \<noteq> None) (video_clips p)"
    and a0: "list_all (\<lambda>c. map_of (media p) (media_id c) \<noteq> None) (audio_clips p)"
    by (simp_all add: media_resolves_def)
  have v: "list_all (\<lambda>ic. map_of (media p) (media_id (snd ic)) \<noteq> None)
      (enumerate 0 (video_clips p))"
    by (rule list_all_enumerate [OF v0])
  have a: "list_all (\<lambda>ic. map_of (media p) (media_id (snd ic)) \<noteq> None)
      (enumerate 0 (audio_clips p))"
    by (rule list_all_enumerate [OF a0])
  have td: "path_join (workspace_dir p) ''export_tmp'' = temp_dir_of p"
    by (simp add: temp_dir_of_def)
  show ?thesis
    unfolding export_with_ffmpeg_def Let_def td
    using assms(2)
    by (simp add: makedirs_def export_plan_def run_steps_append video_steps_def concat_steps_def
        audio_steps_def final_cmd_of_def audio_segments_def concat_list_path_of_def
        video_concat_path_of_def trim_video_clips_steps [OF v] trim_audio_clips_steps [OF a]
        comp_def
        split: prod.splits sum.splits)
qed

text \<open>
  Running a list of steps leaves a trace that is a prefix of the list: all of it when
  every step succeeded, and up to the failing command when one failed. A file that none
  of the executed steps names as its output is left as it was.
\<close>

lemma run_checked_trace: "trace (snd (run_checked env cmd s)) = trace s @ [Run cmd]"
  by (simp add: run_checked_def subprocess_run_def split: prod.splits)

lemma run_checked_files:
  "cmd_output cmd \<noteq> Some f \<Longrightarrow> files (snd (run_checked env cmd s)) f = files s f"
  by (auto simp add: run_checked_def subprocess_run_def split: prod.splits option.splits)

lemma run_checked_error:
  "fst (run_checked env cmd s) = Inl e \<Longrightarrow> e = CalledProcessError cmd"
  by (auto simp add: run_checked_def subprocess_run_def split: prod.splits if_splits)

lemma run_steps_prefix:
  "\<exists>k\<le>length steps.
     trace (snd (run_steps env steps s)) = trace s @ take k steps \<and>
     (fst (run_steps env steps s) = Inr () \<longrightarrow> k = length steps) \<and>
     (\<forall>e. fst (run_steps env steps s) = Inl e \<longrightarrow>
          0 < k \<and> steps ! (k - 1) = Run (case e of CalledProcessError cmd \<Rightarrow> cmd | _ \<Rightarrow> []) \<and>
          (\<exists>cmd. e = CalledProcessError cmd)) \<and>
     (\<forall>f. (\<forall>ev\<in>set (take k steps). event_output ev \<noteq> Some f) \<longrightarrow>
          files (snd (run_steps env steps s)) f = files s f)"
proof (induction steps arbitrary: s)
  case Nil
  then show ?case by simp
next
  case (Cons ev steps)
  show ?case
  proof (cases ev)
    case (Run cmd)
    show ?thesis
    proof (cases "fst (run_checked env cmd s)")
      case (Inl e)
      obtain r0 s0 where rc: "run_checked env cmd s = (r0, s0)"
        by (cases "run_checked env cmd s")
      with Inl have r: "run_steps env (Run cmd # steps) s = (Inl e, snd (run_checked env cmd s))"
        by (simp add: Run)
      from Inl have e: "e = CalledProcessError cmd" by (rule run_checked_error)
      show ?thesis unfolding Run
        by (rule exI [of _ 1])
          (simp add: r Run e run_checked_trace run_checked_files del: run_steps.simps)
    next
      case (Inr u)
      define s1 where "s1 = snd (run_checked env cmd s)"
      obtain r0 s0 where rc: "run_checked env cmd s = (r0, s0)"
        by (cases "run_checked env cmd s")
      with Inr have r: "run_steps env (Run cmd # steps) s = run_steps env steps s1"
        by (simp add: Run s1_def)
      from Cons.IH [of s1] obtain k where k: "k \<le> length steps"
        "trace (snd (run_steps env steps s1)) = trace s1 @ take k steps"
        "fst (run_steps env steps s1) = Inr () \<longrightarrow> k = length steps"
        "\<forall>e. fst (run_steps env steps s1) = Inl e \<longrightarrow>
          0 < k \<and> steps ! (k - 1) = Run (case e of CalledProcessError cmd \<Rightarrow> cmd | _ \<Rightarrow> []) \<and>
          (\<exists>cmd. e = CalledProcessError cmd)"
        "\<forall>f. (\<forall>ev\<in>set (take k steps). event_output ev \<noteq> Some f) \<longrightarrow>
          files (snd (run_steps env steps s1)) f = files s1 f"
        by blast
      have t1: "trace s1 = trace s @ [Run cmd]"
        by (simp add: s1_def run_checked_trace)
      show ?thesis unfolding Run
      proof (rule exI [of _ "Suc k"], intro conjI allI impI)
        show "Suc k \<le> length (Run cmd # steps)" using k(1) by simp
        show "trace (snd (run_steps env (Run cmd # steps) s)) = trace s @ take (Suc k) (Run cmd # steps)"
          by (simp add: r k(2) t1 del: run_steps.simps)
        show "fst (run_steps env (Run cmd # steps) s) = Inr () \<Longrightarrow> Suc k = length (Run cmd # steps)"
          using k(3) by (simp add: r del: run_steps.simps)
      next
        fix e assume "fst (run_steps env (Run cmd # steps) s) = Inl e"
        then have f: "fst (run_steps env steps s1) = Inl e" by (simp add: r del: run_steps.simps)
        with k(4) have k0: "0 < k"
          and nth: "steps ! (k - 1) = Run (case e of CalledProcessError cmd \<Rightarrow> cmd | _ \<Rightarrow> [])"
          and ex: "\<exists>cmd. e = CalledProcessError cmd"
          by blast+
        show "0 < Suc k" by simp
        show "(Run cmd # steps) ! (Suc k - 1) = Run (case e of CalledProcessError cmd \<Rightarrow> cmd | _ \<Rightarrow> [])"
          using k0 nth by (cases k) simp_all
        show "\<exists>cmd. e = CalledProcessError cmd" by (rule ex)
      next
        fix f assume a: "\<forall>ev\<in>set (take (Suc k) (Run cmd # steps)). event_output ev \<noteq> Some f"
        then have "cmd_output cmd \<noteq> Some f" by (simp add: Run)
        then have "files s1 f = files s f" by (simp add: s1_def run_checked_files)
        moreover from a have "\<forall>ev\<in>set (take k steps). event_output ev \<noteq> Some f" by simp
        with k(5) have "files (snd (run_steps env steps s1)) f = files s1 f" by blast
        ultimately show "files (snd (run_steps env (Run cmd # steps) s)) f = files s f"
          by (simp add: r del: run_steps.simps)
      qed
    qed
  next
    case (WriteFile g content)
    define s1 where "s1 = write_file g content s"
    have r: "run_steps env (WriteFile g content # steps) s = run_steps env steps s1"
      by (simp add: WriteFile s1_def)
    from Cons.IH [of s1] obtain k where k: "k \<le> length steps"
      "trace (snd (run_steps env steps s1)) = trace s1 @ take k steps"
      "fst (run_steps env steps s1) = Inr () \<longrightarrow> k = length steps"
      "\<forall>e. fst (run_steps env steps s1) = Inl e \<longrightarrow>
        0 < k \<and> steps ! (k - 1) = Run (case e of CalledProcessError cmd \<Rightarrow> cmd | _ \<Rightarrow> []) \<and>
        (\<exists>cmd. e = CalledProcessError cmd)"
      "\<forall>f. (\<forall>ev\<in>set (take k steps). event_output ev \<noteq> Some f) \<longrightarrow>
        files (snd (run_steps env steps s1)) f = files s1 f"
      by blast
    have t1: "trace s1 = trace s @ [WriteFile g content]"
      by (simp add: s1_def write_file_def)
    show ?thesis unfolding WriteFile
    proof (rule exI [of _ "Suc k"], intro conjI allI impI)
      show "Suc k \<le> length (WriteFile g content # steps)" using k(1) by simp
      show "trace (snd (run_steps env (WriteFile g content # steps) s)) = trace s @ take (Suc k) (WriteFile g content # steps)"
        by (simp add: r k(2) t1 del: run_steps.simps)
      show "fst (run_steps env (WriteFile g content # steps) s) = Inr () \<Longrightarrow> Suc k = length (WriteFile g content # steps)"
        using k(3) by (simp add: r del: run_steps.simps)
    next
      fix e assume "fst (run_steps env (WriteFile g content # steps) s) = Inl e"
      then have f: "fst (run_steps env steps s1) = Inl e" by (simp add: r del: run_steps.simps)
      with k(4) have k0: "0 < k"
        and nth: "steps ! (k - 1) = Run (case e of CalledProcessError cmd \<Rightarrow> cmd | _ \<Rightarrow> [])"
        and ex: "\<exists>cmd. e = CalledProcessError cmd"
        by blast+
      show "0 < Suc k" by simp
      show "(WriteFile g content # steps) ! (Suc k - 1) = Run (case e of CalledProcessError cmd \<Rightarrow> cmd | _ \<Rightarrow> [])"
        using k0 nth by (cases k) simp_all
      show "\<exists>cmd. e = CalledProcessError cmd" by (rule ex)
    next
      fix f assume a: "\<forall>ev\<in>set (take (Suc k) (WriteFile g content # steps)). event_output ev \<noteq> Some f"
      then have "g \<noteq> f" by (simp add: WriteFile)
      then have "files s1 f = files s f" by (simp add: s1_def write_file_def)
      moreover from a have "\<forall>ev\<in>set (take k steps). event_output ev \<noteq> Some f" by simp
      with k(5) have "files (snd (run_steps env steps s1)) f = files s1 f" by blast
      ultimately show "files (snd (run_steps env (WriteFile g content # steps) s)) f = files s f"
        by (simp add: r del: run_steps.simps)
    qed
  qed
qed



section \<open>Evaluating an export\<close>

lemma str_nat_digit: "n < 10 \<Longrightarrow> str_nat n = [digit_char n]"
  by (subst str_nat.simps) simp

lemma str_nat_more: "10 \<le> n \<Longrightarrow> str_nat n = str_nat (n div 10) @ [digit_char (n mod 10)]"
  by (subst str_nat.simps) simp

lemmas export_eval =
  export_with_ffmpeg_def makedirs_def enumerate_eq_zip path_join_def Let_def run_checked_def
  subprocess_run_def cmd_output_def video_trim_cmd_def audio_trim_cmd_def concat_cmd_def
  final_cmd_video_only_def final_cmd_mix_def mix_cmd_def write_file_def concat_list_line_def
  delay_part_def mix_part_def str_int_def str_nat_digit str_nat_more digit_char_def
  py_int_def fmt_03d_def upt_rec numeral_2_eq_2
  temp_dir_of_def video_tmp_file_def audio_tmp_file_def concat_list_path_of_def
  video_concat_path_of_def source_path_def audio_segments_def final_cmd_of_def
  audio_steps_def audio_step_def video_steps_def video_step_def concat_steps_def
  export_plan_def media_resolves_def intermediate_files_def

lemmas example_defs =
  project_two_videos_def project_two_audios_def empty_project_def demo_media_def env_ok_def
  any_dir_def engine_ok_def fresh_process_def env_final_fails_def engine_fails_encoding_def
  env_concat_fails_def engine_fails_concat_def

section \<open>The plan of a successful export\<close>






section \<open>A failing step\<close>

lemma plan_outputs:
  assumes "ev \<in> set (video_steps p @ concat_steps p @ audio_steps p)"
  shows "\<exists>f\<in>set (intermediate_files p). event_output ev = Some f"
proof -
  from assms consider (v) "ev \<in> set (video_steps p)" | (c) "ev \<in> set (concat_steps p)"
    | (a) "ev \<in> set (audio_steps p)"
    by auto
  then show ?thesis
  proof cases
    case v
    then obtain ic where ic: "ic \<in> set (enumerate 0 (video_clips p))" and ev: "ev = video_step p ic"
      by (auto simp add: video_steps_def)
    have "event_output ev = Some (video_tmp_file (temp_dir_of p) (fst ic))"
      by (simp add: ev video_step_def cmd_output_def video_trim_cmd_def)
    moreover from ic have "video_tmp_file (temp_dir_of p) (fst ic) \<in> set (intermediate_files p)"
      by (simp add: intermediate_files_def)
    ultimately show ?thesis by blast
  next
    case c
    then show ?thesis
      by (auto simp add: concat_steps_def intermediate_files_def cmd_output_def concat_cmd_def)
  next
    case a
    then obtain ic where ic: "ic \<in> set (enumerate 0 (audio_clips p))" and ev: "ev = audio_step p ic"
      by (auto simp add: audio_steps_def)
    have "event_output ev = Some (audio_tmp_file (temp_dir_of p) (fst ic))"
      by (simp add: ev audio_step_def cmd_output_def audio_trim_cmd_def)
    moreover from ic have "audio_tmp_file (temp_dir_of p) (fst ic) \<in> set (intermediate_files p)"
      by (simp add: intermediate_files_def)
    ultimately show ?thesis by blast
  qed
qed

text \<open>
  C4, as stated: when a step of the export fails, no partial output is retained at the
  output path. The final command is given the output path itself to write to, and
  nothing is removed when it fails: with an engine that fails while encoding and leaves
  what it had written, the export ends in \<open>CalledProcessError\<close> and the partial file is
  at the output path, where no file was before.
\<close>

theorem failed_final_step_leaves_partial_output:
  "fst (export_with_ffmpeg env_final_fails project_two_videos ''/e/out.mp4'' fresh_process) =
     Inl (CalledProcessError (final_cmd_of project_two_videos ''/e/out.mp4'')) \<and>
   files fresh_process ''/e/out.mp4'' = None \<and>
   files (snd (export_with_ffmpeg env_final_fails project_two_videos ''/e/out.mp4'' fresh_process))
     ''/e/out.mp4'' = Some ''partial''"
  by (simp add: export_eval example_defs no_files_def)

text \<open>
  C4, amended. When every clip's media id resolves and the temporary directory can be
  made, an export that fails has failed in a command of its plan, and that command is
  the last thing it did: the trace is the plan up to and including the failing command,
  and no later step is run. When the failing command is not the final one (it is a trim
  or the concatenation) and the output path is not one of the export's own temporary
  files, the file at the output path is what it was before the export. What is at the
  output path after the final command failed is what the engine left there.
\<close>

theorem failed_step_aborts_export:
  assumes "media_resolves p"
    and "makedirs_ok env (temp_dir_of p)"
    and "fst (export_with_ffmpeg env p output_path s) = Inl e"
  shows "\<exists>k cmd. 0 < k \<and> k \<le> length (export_plan p output_path) \<and>
     e = CalledProcessError cmd \<and>
     export_plan p output_path ! (k - 1) = Run cmd \<and>
     trace (snd (export_with_ffmpeg env p output_path s)) =
       trace s @ take k (export_plan p output_path) \<and>
     (cmd \<noteq> final_cmd_of p output_path \<longrightarrow> output_path \<notin> set (intermediate_files p) \<longrightarrow>
        k < length (export_plan p output_path) \<and>
        files (snd (export_with_ffmpeg env p output_path s)) output_path = files s output_path)"
proof -
  define pre where "pre = video_steps p @ concat_steps p @ audio_steps p"
  define plan where "plan = export_plan p output_path"
  have plan_pre: "plan = pre @ [Run (final_cmd_of p output_path)]"
    by (simp add: plan_def pre_def export_plan_def)
  have ex: "export_with_ffmpeg env p output_path s = run_steps env plan s"
    unfolding plan_def by (rule export_is_plan [OF assms(1,2)])
  from assms(3) have failed: "fst (run_steps env plan s) = Inl e"
    by (simp add: ex)
  from run_steps_prefix [of plan env s] obtain k where k: "k \<le> length plan"
    and tr: "trace (snd (run_steps env plan s)) = trace s @ take k plan"
    and err: "\<forall>e. fst (run_steps env plan s) = Inl e \<longrightarrow>
          0 < k \<and> plan ! (k - 1) = Run (case e of CalledProcessError cmd \<Rightarrow> cmd | _ \<Rightarrow> []) \<and>
          (\<exists>cmd. e = CalledProcessError cmd)"
    and frame: "\<forall>f. (\<forall>ev\<in>set (take k plan). event_output ev \<noteq> Some f) \<longrightarrow>
          files (snd (run_steps env plan s)) f = files s f"
    by blast
  from err failed obtain cmd where k0: "0 < k" and e: "e = CalledProcessError cmd"
    and nth: "plan ! (k - 1) = Run cmd"
    by auto
  have untouched: "k < length plan \<and> files (snd (run_steps env plan s)) output_path = files s output_path"
    if notfinal: "cmd \<noteq> final_cmd_of p output_path"
      and notint: "output_path \<notin> set (intermediate_files p)"
  proof -
    have "k - 1 \<noteq> length pre"
    proof
      assume "k - 1 = length pre"
      with nth have "Run cmd = Run (final_cmd_of p output_path)"
        by (simp add: plan_pre)
      with notfinal show False by simp
    qed
    with k k0 have kpre: "k \<le> length pre"
      by (simp add: plan_pre)
    then have tk: "take k plan = take k pre"
      by (simp add: plan_pre)
    have "\<forall>ev\<in>set (take k plan). event_output ev \<noteq> Some output_path"
    proof
      fix ev assume "ev \<in> set (take k plan)"
      then have "ev \<in> set pre"
        unfolding tk by (rule in_set_takeD)
      then obtain f where "f \<in> set (intermediate_files p)" and "event_output ev = Some f"
        unfolding pre_def using plan_outputs by blast
      with notint show "event_output ev \<noteq> Some output_path" by auto
    qed
    with frame have "files (snd (run_steps env plan s)) output_path = files s output_path"
      by blast
    moreover from kpre have "k < length plan" by (simp add: plan_pre)
    ultimately show ?thesis by simp
  qed
  show ?thesis
    unfolding ex plan_def [symmetric]
    using k0 k e nth tr untouched by blast
qed

theorem failed_step_aborts_export_witness:
  "media_resolves project_two_videos \<and>
   makedirs_ok env_concat_fails (temp_dir_of project_two_videos) \<and>
   fst (export_with_ffmpeg env_concat_fails project_two_videos ''/e/out.mp4'' fresh_process) =
     Inl (CalledProcessError (concat_cmd (concat_list_path_of project_two_videos)
                                (video_concat_path_of project_two_videos))) \<and>
   concat_cmd (concat_list_path_of project_two_videos) (video_concat_path_of project_two_videos)
     \<noteq> final_cmd_of project_two_videos ''/e/out.mp4'' \<and>
   ''/e/out.mp4'' \<notin> set (intermediate_files project_two_videos) \<and>
   files (snd (export_with_ffmpeg env_concat_fails project_two_videos ''/e/out.mp4'' fresh_process))
     ''/e/out.mp4'' = files fresh_process ''/e/out.mp4''"
proof -
  have h1: "media_resolves project_two_videos"
    by (simp add: media_resolves_def example_defs)
  have h2: "makedirs_ok env_concat_fails (temp_dir_of project_two_videos)"
    by (simp add: example_defs)
  have h3: "fst (export_with_ffmpeg env_concat_fails project_two_videos ''/e/out.mp4'' fresh_process) =
     Inl (CalledProcessError (concat_cmd (concat_list_path_of project_two_videos)
                                (video_concat_path_of project_two_videos)))"
    by (simp add: export_eval example_defs)
  have h4: "concat_cmd (concat_list_path_of project_two_videos) (video_concat_path_of project_two_videos)
     \<noteq> final_cmd_of project_two_videos ''/e/out.mp4''"
    by (simp add: export_eval example_defs)
  have h5: "''/e/out.mp4'' \<notin> set (intermediate_files project_two_videos)"
    by (simp add: export_eval example_defs)
  from failed_step_aborts_export [OF h1 h2 h3] h4 h5
  have "files (snd (export_with_ffmpeg env_concat_fails project_two_videos ''/e/out.mp4'' fresh_process))
     ''/e/out.mp4'' = files fresh_process ''/e/out.mp4''"
    by auto
  with h1 h2 h3 h4 h5 show ?thesis by blast
qed

section \<open>The audio mix\<close>

text \<open>
  C5. Each trimmed audio segment is to be delayed by its own start time, \<open>[0, 2500]\<close> ms
  for two audio clips at 0 s and 2.5 s. The export of one video clip and those two audio
  clips succeeds, and its last command is the one below. Its input files are, in
  ffmpeg's numbering from 0, the concatenated video, then \<open>a_000.mp3\<close> (the clip at 0 s),
  then \<open>a_001.mp3\<close> (the clip at 2.5 s); the filter graph takes the streams \<open>[0:a]\<close> and
  \<open>[1:a]\<close>: it delays the audio of the concatenated video by 0 ms and the segment of the
  clip at 0 s by 2500 ms, and the segment of the clip at 2.5 s is not in the mix.
\<close>

theorem mix_delays_name_wrong_inputs:
  "fst (export_with_ffmpeg env_ok project_two_audios ''/e/out.mp4'' fresh_process) = Inr () \<and>
   last (trace (snd (export_with_ffmpeg env_ok project_two_audios ''/e/out.mp4'' fresh_process))) =
     Run (final_cmd_of project_two_audios ''/e/out.mp4'') \<and>
   audio_segments project_two_audios =
     [(''/w/export_tmp/a_000.mp3'', 0), (''/w/export_tmp/a_001.mp3'', 5 / 2)] \<and>
   final_cmd_of project_two_audios ''/e/out.mp4'' =
     [Str ''ffmpeg'', Str ''-y'', Str ''-i'', Str ''/w/export_tmp/video_concat.mp4'',
      Str ''-i'', Str ''/w/export_tmp/a_000.mp3'', Str ''-i'', Str ''/w/export_tmp/a_001.mp3'',
      Str ''-filter_complex'',
      Str ''[0:a]adelay=0|0[a0];[1:a]adelay=2500|2500[a1];[a0][a1]amix=inputs=2:duration=longest[aout]'',
      Str ''-map'', Str ''0:v'', Str ''-map'', Str ''[aout]'', Str ''-c:v'', Str ''libx264'',
      Str ''-c:a'', Str ''aac'', Str ''-preset'', Str ''fast'', Str ''/e/out.mp4''] \<and>
   ffmpeg_inputs (final_cmd_of project_two_audios ''/e/out.mp4'') =
     [Str ''/w/export_tmp/video_concat.mp4'', Str ''/w/export_tmp/a_000.mp3'',
      Str ''/w/export_tmp/a_001.mp3'']"
  by (simp add: export_eval example_defs)

section \<open>The timeline in a session\<close>





















lemmas timeline_eval =
  session_def new_timeline_def draw_tracks_def add_media_def dropEvent_def audio_y_def
  pixels_per_second_def get_media_duration_def ffprobe_installed_def add_and_draw_def
  add_clip_def draw_clip_def sorted_items_def mouseReleaseEvent_def release_clip_def Let_def
  track_sorted_def



section \<open>Moving a clip\<close>

text \<open>
  C7. Moving a clip to a new start time \<open>t\<close> is to set its start time to \<open>max 0 t\<close>, 0
  for a negative \<open>t\<close>, and to leave its in and out points. A file is imported and placed
  at 2 s; its item is dragged 450 pixels to the left, to x = -250, that is to
  \<open>t = -2.5\<close> s, and released. The release reads the item's rectangle, which is where
  the item was drawn (x = 200), and not the position the drag gave it: the clip still
  starts at 2 s, where the claim has 0. In and out point are unchanged.
\<close>

theorem dragged_clip_keeps_its_start:
  "video_clips (project (fst (session env_ok place_drag_release
       (new_timeline empty_project, fresh_process)))) =
     [\<lparr>media_id = ''m1'', in_point = 0, out_point = 42, start_time = 2\<rparr>] \<and>
   video_items (fst (session env_ok place_drag_release
       (new_timeline empty_project, fresh_process))) =
     [Some \<lparr>rect_x = 200, pos_x = - 450\<rparr>] \<and>
   max 0 ((200 + (- 450)) / pixels_per_second) = 0"
  by (simp add: timeline_eval place_drag_release_def empty_project_def media_a_def
      env_ok_def probe_42_def fresh_process_def no_cache_def)

section \<open>Probing a duration\<close>

text \<open>
  C8, as stated: a second probe of the same path returns the cached value without
  invoking the prober again. \<open>get_media_duration\<close> looks for \<open>ffprobe\<close> before it looks
  in the cache, on every call. A first call probes the path and caches 42; a second
  call for the same path, with \<open>ffprobe\<close> no longer to be found, returns 10 and not the
  cached 42; and a second call with \<open>ffprobe\<close> still there returns 42 but has started
  \<open>ffprobe -version\<close> to do so.
\<close>

theorem cached_duration_not_returned:
  "fst (get_media_duration env_ok ''/src/a.mp4'' fresh_process) = 42 \<and>
   cache (snd (get_media_duration env_ok ''/src/a.mp4'' fresh_process)) ''/src/a.mp4'' = Some 42 \<and>
   fst (get_media_duration env_no_ffprobe ''/src/a.mp4''
         (snd (get_media_duration env_ok ''/src/a.mp4'' fresh_process))) = 10 \<and>
   trace (snd (get_media_duration env_ok ''/src/a.mp4''
         (snd (get_media_duration env_ok ''/src/a.mp4'' fresh_process)))) =
     trace (snd (get_media_duration env_ok ''/src/a.mp4'' fresh_process)) @
     [Run [Str ''ffprobe'', Str ''-version'']]"
  by (simp add: get_media_duration_def ffprobe_installed_def Let_def env_ok_def
      env_no_ffprobe_def probe_42_def fresh_process_def no_cache_def)

text \<open>
  C8, amended. Every call of \<open>get_media_duration\<close> first starts \<open>ffprobe -version\<close>.
  Without \<open>ffprobe\<close> the result is the fallback 10.0, whatever the cache holds, and the
  cache is left alone. With \<open>ffprobe\<close>, a path that is in the cache yields the cached
  value, and no probe of the path is run; a path that is not in the cache is probed
  once, the result is the probed duration or, when the probe fails, the fallback 10.0,
  and that result is stored under this path and no other. So a second call for the same
  path, with \<open>ffprobe\<close> available at both calls, returns the value of the first and runs
  no probe of the path, whatever the probe would answer then. The function returns a
  number in every case; launching \<open>ffprobe\<close> is taken to succeed or to fail with
  \<open>FileNotFoundError\<close>.
\<close>

theorem probe_fallback_and_cache_by_path:
  "(\<not> ffprobe_on_path env \<longrightarrow>
      get_media_duration env p s =
        (10, s\<lparr>trace := trace s @ [Run [Str ''ffprobe'', Str ''-version'']]\<rparr>)) \<and>
   (\<forall>d. ffprobe_on_path env \<and> cache s p = Some d \<longrightarrow>
      get_media_duration env p s =
        (d, s\<lparr>trace := trace s @ [Run [Str ''ffprobe'', Str ''-version'']]\<rparr>)) \<and>
   (ffprobe_on_path env \<and> cache s p = None \<longrightarrow>
      (ffprobe_duration env p = None \<longrightarrow> fst (get_media_duration env p s) = 10) \<and>
      (\<forall>d. ffprobe_duration env p = Some d \<longrightarrow> fst (get_media_duration env p s) = d) \<and>
      cache (snd (get_media_duration env p s)) = (cache s)(p \<mapsto> fst (get_media_duration env p s)) \<and>
      (\<forall>q. q \<noteq> p \<longrightarrow> cache (snd (get_media_duration env p s)) q = cache s q) \<and>
      trace (snd (get_media_duration env p s)) =
        trace s @ [Run [Str ''ffprobe'', Str ''-version''], Run (ffprobe_cmd p)]) \<and>
   (ffprobe_on_path env \<and> ffprobe_on_path env2 \<longrightarrow>
      get_media_duration env2 p (snd (get_media_duration env p s)) =
        (fst (get_media_duration env p s),
         (snd (get_media_duration env p s))
           \<lparr>trace := trace (snd (get_media_duration env p s)) @
                      [Run [Str ''ffprobe'', Str ''-version'']]\<rparr>))"
  by (auto simp add: get_media_duration_def ffprobe_installed_def Let_def split: option.splits)

theorem probe_fallback_and_cache_by_path_witness:
  "\<not> ffprobe_on_path env_no_ffprobe \<and>
   fst (get_media_duration env_no_ffprobe ''/src/a.mp4'' fresh_process) = 10 \<and>
   ffprobe_on_path env_probe_fails \<and> cache fresh_process ''/src/a.mp4'' = None \<and>
   ffprobe_duration env_probe_fails ''/src/a.mp4'' = None \<and>
   fst (get_media_duration env_probe_fails ''/src/a.mp4'' fresh_process) = 10 \<and>
   ffprobe_on_path env_ok \<and> ffprobe_duration env_ok ''/src/a.mp4'' = Some 42 \<and>
   fst (get_media_duration env_ok ''/src/a.mp4'' fresh_process) = 42 \<and>
   ''/src/b.mp3'' \<noteq> ''/src/a.mp4'' \<and>
   cache (snd (get_media_duration env_ok ''/src/a.mp4'' fresh_process)) ''/src/b.mp3'' = None \<and>
   cache (snd (get_media_duration env_ok ''/src/a.mp4'' fresh_process)) ''/src/a.mp4'' = Some 42 \<and>
   fst (get_media_duration env_probe_fails ''/src/a.mp4''
         (snd (get_media_duration env_ok ''/src/a.mp4'' fresh_process))) = 42 \<and>
   trace (snd (get_media_duration env_probe_fails ''/src/a.mp4''
         (snd (get_media_duration env_ok ''/src/a.mp4'' fresh_process)))) =
     [Run [Str ''ffprobe'', Str ''-version''], Run (ffprobe_cmd ''/src/a.mp4''),
      Run [Str ''ffprobe'', Str ''-version'']]"
proof -
  have e: "\<not> ffprobe_on_path env_no_ffprobe" "ffprobe_on_path env_probe_fails"
    "ffprobe_on_path env_ok" "cache fresh_process ''/src/a.mp4'' = None"
    "ffprobe_duration env_probe_fails ''/src/a.mp4'' = None"
    "ffprobe_duration env_ok ''/src/a.mp4'' = Some 42" "trace fresh_process = []"
    "cache fresh_process ''/src/b.mp3'' = None"
    by (simp_all add: env_no_ffprobe_def env_probe_fails_def env_ok_def fresh_process_def
        no_cache_def probe_none_def probe_42_def)
  from e probe_fallback_and_cache_by_path [of env_no_ffprobe "''/src/a.mp4''" fresh_process env_ok]
  have a: "fst (get_media_duration env_no_ffprobe ''/src/a.mp4'' fresh_process) = 10"
    by simp
  from e probe_fallback_and_cache_by_path [of env_probe_fails "''/src/a.mp4''" fresh_process env_ok]
  have b: "fst (get_media_duration env_probe_fails ''/src/a.mp4'' fresh_process) = 10"
    by simp
  from e probe_fallback_and_cache_by_path [of env_ok "''/src/a.mp4''" fresh_process env_probe_fails]
  have c: "fst (get_media_duration env_ok ''/src/a.mp4'' fresh_process) = 42"
    and c2: "cache (snd (get_media_duration env_ok ''/src/a.mp4'' fresh_process)) ''/src/b.mp3'' = None"
    and c3: "cache (snd (get_media_duration env_ok ''/src/a.mp4'' fresh_process)) ''/src/a.mp4'' = Some 42"
    and c4: "trace (snd (get_media_duration env_ok ''/src/a.mp4'' fresh_process)) =
        [Run [Str ''ffprobe'', Str ''-version''], Run (ffprobe_cmd ''/src/a.mp4'')]"
    and c5: "get_media_duration env_probe_fails ''/src/a.mp4''
          (snd (get_media_duration env_ok ''/src/a.mp4'' fresh_process)) =
        (fst (get_media_duration env_ok ''/src/a.mp4'' fresh_process),
         (snd (get_media_duration env_ok ''/src/a.mp4'' fresh_process))
           \<lparr>trace := trace (snd (get_media_duration env_ok ''/src/a.mp4'' fresh_process)) @
                      [Run [Str ''ffprobe'', Str ''-version'']]\<rparr>)"
    by simp_all
  show ?thesis
    using e a b c c2 c3 by (simp add: c5 c4)
qed

end
